theory Spec2Isabelle
  imports Main "HOL-Library.Sublist" "HOL-Library.Char_ord" "HOL-Library.List_Lexorder"
begin

section \<open>Cart engine (src/hooks/useCart.js, \<open>useCart\<close>)\<close>

text \<open>
  JavaScript numbers that hold quantities, prices (in minor units), counters and millisecond
  timestamps are modelled as \<^typ>\<open>int\<close>; identifiers are strings.
  React state updates \<open>setCart(prevCart => ...)\<close> are modelled as functions from the
  previous cart to the next one.
\<close>

record menu_item =
  mi_id :: string
  mi_name :: string
  mi_price :: int
  mi_category :: string
  mi_image_url :: string
  mi_preparation_time :: int

record cart_line =
  cl_id :: string
  cl_name :: string
  cl_price :: int
  cl_category :: string
  cl_image_url :: string
  cl_preparation_time :: int
  cl_quantity :: int
  cl_specialInstructions :: string
  cl_cartId :: string

type_synonym cart = "cart_line list"

text \<open>\<open>Array.prototype.findIndex\<close>: the first index whose element satisfies the
  predicate; \<open>None\<close> stands for the result \<open>-1\<close>.\<close>

fun findIndex :: "('a \<Rightarrow> bool) \<Rightarrow> 'a list \<Rightarrow> nat option" where
  "findIndex P [] = None"
| "findIndex P (x # xs) = (if P x then Some 0 else map_option Suc (findIndex P xs))"

text \<open>The predicate of \<open>addToCart\<close>'s \<open>findIndex\<close>:
  \<open>item.id === menuItem.id && item.specialInstructions === specialInstructions\<close>.\<close>

definition sameLine :: "string \<Rightarrow> string \<Rightarrow> cart_line \<Rightarrow> bool" where
  "sameLine menuItemId specialInstructions item \<longleftrightarrow>
     cl_id item = menuItemId \<and> cl_specialInstructions item = specialInstructions"

text \<open>\<open>addToCart(menuItem, quantity, specialInstructions)\<close>. The freshly generated
  \<open>cartId\<close> (built from the clock and a random number) is supplied as \<open>newCartId\<close>.\<close>

definition addToCart :: "menu_item \<Rightarrow> int \<Rightarrow> string \<Rightarrow> string \<Rightarrow> cart \<Rightarrow> cart" where
  "addToCart menuItem quantity specialInstructions newCartId prevCart =
     (case findIndex (sameLine (mi_id menuItem) specialInstructions) prevCart of
        Some existingItemIndex \<Rightarrow>
          prevCart[existingItemIndex :=
            (prevCart ! existingItemIndex)
              \<lparr>cl_quantity := cl_quantity (prevCart ! existingItemIndex) + quantity\<rparr>]
      | None \<Rightarrow>
          prevCart @
            [\<lparr>cl_id = mi_id menuItem, cl_name = mi_name menuItem, cl_price = mi_price menuItem,
              cl_category = mi_category menuItem, cl_image_url = mi_image_url menuItem,
              cl_preparation_time = mi_preparation_time menuItem, cl_quantity = quantity,
              cl_specialInstructions = specialInstructions, cl_cartId = newCartId\<rparr>])"

definition removeFromCart :: "string \<Rightarrow> cart \<Rightarrow> cart" where
  "removeFromCart cartId prevCart = filter (\<lambda>item. cl_cartId item \<noteq> cartId) prevCart"

definition updateQuantity :: "string \<Rightarrow> int \<Rightarrow> cart \<Rightarrow> cart" where
  "updateQuantity cartId newQuantity prevCart =
     (if newQuantity \<le> 0 then removeFromCart cartId prevCart
      else map (\<lambda>item. if cl_cartId item = cartId then item\<lparr>cl_quantity := newQuantity\<rparr>
                        else item) prevCart)"

definition clearCart :: "cart \<Rightarrow> cart" where
  "clearCart prevCart = []"

definition updateSpecialInstructions :: "string \<Rightarrow> string \<Rightarrow> cart \<Rightarrow> cart" where
  "updateSpecialInstructions cartId instructions prevCart =
     map (\<lambda>item. if cl_cartId item = cartId
                  then item\<lparr>cl_specialInstructions := instructions\<rparr> else item) prevCart"

text \<open>One \<open>addToCart\<close> call of a sequence that uses a fixed \<open>specialInstructions\<close>
  string: the menu item, the quantity and the generated \<open>cartId\<close>.\<close>

type_synonym add_call = "menu_item \<times> int \<times> string"

definition addAll :: "string \<Rightarrow> add_call list \<Rightarrow> cart \<Rightarrow> cart" where
  "addAll specialInstructions calls cart0 =
     foldl (\<lambda>c (menuItem, quantity, newCartId).
              addToCart menuItem quantity specialInstructions newCartId c) cart0 calls"

text \<open>The quantity a cart holds for a pair: that of the first matching line, 0 if there
  is none.\<close>

definition lineQuantity :: "string \<Rightarrow> string \<Rightarrow> cart \<Rightarrow> int" where
  "lineQuantity menuItemId specialInstructions c =
     (case find (sameLine menuItemId specialInstructions) c of
        None \<Rightarrow> 0 | Some item \<Rightarrow> cl_quantity item)"

text \<open>The sum of the quantities of a sequence of \<open>addToCart\<close> calls.\<close>

definition addedQuantity :: "add_call list \<Rightarrow> int" where
  "addedQuantity calls = sum_list (map (\<lambda>(menuItem, quantity, newCartId). quantity) calls)"

subsection \<open>Availability validation\<close>

record availability =
  allAvailable :: bool
  unavailableItems :: "string list"

datatype validation =
    Validation (valid: bool) (removed: "cart_line list")
  | ValidationError string

text \<open>The hook's state, and the arguments of every call made to the availability-check
  capability so far.\<close>

record cart_state =
  cart :: cart
  isLoading :: bool
  checkCalls :: "string list list"

text \<open>\<open>[...new Set(ids)]\<close>: each id once, in order of first occurrence.\<close>

definition uniqueIds :: "string list \<Rightarrow> string list" where
  "uniqueIds ids = foldl (\<lambda>acc x. if x \<in> set acc then acc else acc @ [x]) [] ids"

text \<open>\<open>validateCart(checkAvailabilityFn)\<close>. The capability either throws
  (\<open>Inl message\<close>) or returns an availability report. The \<open>finally\<close> block resets
  \<open>isLoading\<close> on every path through the \<open>try\<close>.\<close>

definition validateCart ::
  "(string list \<Rightarrow> string + availability) \<Rightarrow> cart_state \<Rightarrow> validation \<times> cart_state" where
  "validateCart checkAvailabilityFn st =
     (if cart st = [] then (Validation True [], st)
      else
        let menuItemIds = uniqueIds (map cl_id (cart st));
            st1 = st\<lparr>isLoading := True, checkCalls := checkCalls st @ [menuItemIds]\<rparr>
        in case checkAvailabilityFn menuItemIds of
             Inl message \<Rightarrow> (ValidationError message, st1\<lparr>isLoading := False\<rparr>)
           | Inr avail \<Rightarrow>
               if \<not> allAvailable avail then
                 (Validation False
                    (filter (\<lambda>item. cl_id item \<in> set (unavailableItems avail)) (cart st)),
                  st1\<lparr>cart := filter (\<lambda>item. cl_id item \<notin> set (unavailableItems avail))
                                  (cart st1),
                      isLoading := False\<rparr>)
               else (Validation True [], st1\<lparr>isLoading := False\<rparr>))"

section \<open>Realtime reconciler (change-event handlers of \<open>useMenu\<close> and \<open>useOrders\<close>)\<close>

record menu_row =
  mr_id :: string
  mr_name :: string
  mr_category :: string
  mr_price :: int
  mr_is_available :: bool
  mr_preparation_time :: int

record order_row =
  or_id :: string
  or_table_number :: int
  or_session_id :: string
  or_total_amount :: int
  or_status :: string
  or_created_at :: string

text \<open>The payload of a change event: \<open>eventType\<close> with the rows \<open>new\<close> and \<open>old\<close>
  that the handlers read for it. \<open>OTHER\<close> is any event type the \<open>switch\<close> sends to
  its \<open>default\<close> branch.\<close>

datatype 'a payload =
    INSERT (new: 'a)
  | UPDATE (new: 'a) (old: 'a)
  | DELETE (old: 'a)
  | OTHER string

text \<open>The handler passed to \<open>subscribeToMenuUpdates\<close>. The \<open>default\<close> branch refetches:
  \<open>refetched\<close> is the list the refetch delivers, \<open>None\<close> when it fails and the items stay
  as they are.\<close>

definition menuUpdateHandler ::
  "menu_row list option \<Rightarrow> menu_row payload \<Rightarrow> menu_row list \<Rightarrow> menu_row list" where
  "menuUpdateHandler refetched p prev =
     (case p of
        INSERT n \<Rightarrow> prev @ [n]
      | UPDATE n _ \<Rightarrow> map (\<lambda>item. if mr_id item = mr_id n then n else item) prev
      | DELETE ol \<Rightarrow> filter (\<lambda>item. mr_id item \<noteq> mr_id ol) prev
      | OTHER _ \<Rightarrow> (case refetched of Some data \<Rightarrow> data | None \<Rightarrow> prev))"

text \<open>The handler passed to \<open>subscribeToOrderUpdates\<close>.\<close>

definition orderUpdateHandler ::
  "order_row list option \<Rightarrow> order_row payload \<Rightarrow> order_row list \<Rightarrow> order_row list" where
  "orderUpdateHandler refetched p prev =
     (case p of
        INSERT n \<Rightarrow>
          (let exists = list_ex (\<lambda>order. or_id order = or_id n) prev
           in if \<not> exists then n # prev else prev)
      | UPDATE n _ \<Rightarrow> map (\<lambda>order. if or_id order = or_id n then n else order) prev
      | DELETE ol \<Rightarrow> filter (\<lambda>order. or_id order \<noteq> or_id ol) prev
      | OTHER _ \<Rightarrow> (case refetched of Some data \<Rightarrow> data | None \<Rightarrow> prev))"

section \<open>Offline order queue (\<open>offlineOrderQueue\<close>)\<close>

record order_data =
  od_table_number :: int
  od_session_id :: string
  od_total_amount :: int

record pending_order =
  po_id :: string
  po_orderData :: order_data
  po_status :: string
  po_created_offline :: bool
  po_retry_count :: int
  po_last_retry :: "int option"
  po_timestamp :: "int option"
  po_updated_at :: "int option"

text \<open>The \<open>pending_orders\<close> object store (key path \<open>id\<close>): the records in key order, which
  is the order \<open>getAll\<close> returns them in. \<open>put\<close> replaces the record with the same key or
  inserts a new one; \<open>add\<close> fails when the key is taken.\<close>

type_synonym order_store = "pending_order list"

definition storeGetAll :: "order_store \<Rightarrow> pending_order list" where
  "storeGetAll s = s"

definition storeDelete :: "string \<Rightarrow> order_store \<Rightarrow> order_store" where
  "storeDelete key s = filter (\<lambda>r. po_id r \<noteq> key) s"

definition storePut :: "pending_order \<Rightarrow> order_store \<Rightarrow> order_store" where
  "storePut r s = insort_key po_id r (storeDelete (po_id r) s)"

text \<open>\<open>offlineStorage.add\<close> stamps \<open>timestamp\<close>, \<open>offlineStorage.update\<close> stamps
  \<open>updated_at\<close>: every \<open>Date.now()\<close> read during one invocation returns \<open>now\<close>.\<close>

definition storageAdd :: "int \<Rightarrow> pending_order \<Rightarrow> order_store \<Rightarrow> string + order_store" where
  "storageAdd now r s =
     (if po_id r \<in> po_id ` set s then Inl ''ConstraintError''
      else Inr (insort_key po_id (r\<lparr>po_timestamp := Some now\<rparr>) s))"

definition storageUpdate :: "int \<Rightarrow> pending_order \<Rightarrow> order_store \<Rightarrow> order_store" where
  "storageUpdate now r s = storePut (r\<lparr>po_updated_at := Some now\<rparr>) s"

text \<open>\<open>addPendingOrder(orderData)\<close>; \<open>newId\<close> is the generated \<open>offline_...\<close> id. The
  error of a failed \<open>add\<close> is rethrown.\<close>

definition addPendingOrder ::
  "int \<Rightarrow> string \<Rightarrow> order_data \<Rightarrow> order_store \<Rightarrow> string + (pending_order \<times> order_store)" where
  "addPendingOrder now newId orderData s =
     (let pendingOrder = \<lparr>po_id = newId, po_orderData = orderData, po_status = ''pending_sync'',
                           po_created_offline = True, po_retry_count = 0, po_last_retry = None,
                           po_timestamp = None, po_updated_at = None\<rparr>
      in case storageAdd now pendingOrder s of
           Inl err \<Rightarrow> Inl err
         | Inr s' \<Rightarrow> Inr (pendingOrder, s'))"

text \<open>What \<open>fetch('/api/orders', POST)\<close> does with an order: the promise rejects, or it
  resolves with a response whose \<open>ok\<close> flag is given and whose \<open>json()\<close> either throws
  (\<open>Inl message\<close>) or yields the synced order (\<open>Inr\<close>).\<close>

datatype fetch_result =
    NetworkError string
  | HttpResponse bool "string + string"

datatype sync_result =
    SyncSuccess string
  | SyncFailure string pending_order

text \<open>The state a drain works on: the store, the \<open>syncResults\<close> array, and the ids of the
  orders for which a POST was issued, in order.\<close>

record sync_state =
  store :: order_store
  syncResults :: "sync_result list"
  sent :: "string list"

text \<open>One iteration of the \<open>for\<close> loop of \<open>syncPendingOrders\<close>.\<close>

definition syncOne :: "(pending_order \<Rightarrow> fetch_result) \<Rightarrow> int \<Rightarrow> pending_order \<Rightarrow> sync_state \<Rightarrow> sync_state" where
  "syncOne server now order st =
     (let st1 = st\<lparr>sent := sent st @ [po_id order]\<rparr>
      in case server order of
           NetworkError message \<Rightarrow>
             st1\<lparr>syncResults := syncResults st1 @ [SyncFailure message order]\<rparr>
         | HttpResponse ok body \<Rightarrow>
             if ok then
               (case body of
                  Inl message \<Rightarrow>
                    st1\<lparr>syncResults := syncResults st1 @ [SyncFailure message order]\<rparr>
                | Inr syncedOrder \<Rightarrow>
                    st1\<lparr>store := storeDelete (po_id order) (store st1),
                        syncResults := syncResults st1 @ [SyncSuccess syncedOrder]\<rparr>)
             else
               st1\<lparr>store := storageUpdate now
                                (order\<lparr>po_retry_count := po_retry_count order + 1,
                                       po_last_retry := Some now\<rparr>) (store st1),
                   syncResults := syncResults st1 @ [SyncFailure ''Server error'' order]\<rparr>)"

fun syncLoop :: "(pending_order \<Rightarrow> fetch_result) \<Rightarrow> int \<Rightarrow> pending_order list \<Rightarrow> sync_state \<Rightarrow> sync_state" where
  "syncLoop server now [] st = st"
| "syncLoop server now (order # rest) st = syncLoop server now rest (syncOne server now order st)"

definition syncPendingOrders :: "(pending_order \<Rightarrow> fetch_result) \<Rightarrow> int \<Rightarrow> order_store \<Rightarrow> sync_state" where
  "syncPendingOrders server now s =
     syncLoop server now (storeGetAll s) \<lparr>store = s, syncResults = [], sent = []\<rparr>"

text \<open>The filter of \<open>retryFailedOrders\<close>. \<open>!order.last_retry\<close> holds when the field is
  missing and when it is 0.\<close>

definition retryEligible :: "int \<Rightarrow> pending_order \<Rightarrow> bool" where
  "retryEligible now order \<longleftrightarrow>
     po_retry_count order < 3 \<and>
     (case po_last_retry order of None \<Rightarrow> True | Some t \<Rightarrow> t = 0 \<or> now - t > 30000)"

definition retryFailedOrders :: "(pending_order \<Rightarrow> fetch_result) \<Rightarrow> int \<Rightarrow> order_store \<Rightarrow> sync_state" where
  "retryFailedOrders server now s =
     (let pendingOrders = storeGetAll s;
          failedOrders = filter (retryEligible now) pendingOrders
      in if length failedOrders > 0 then syncPendingOrders server now s
         else \<lparr>store = s, syncResults = [], sent = []\<rparr>)"

text \<open>Two invocations of \<open>syncPendingOrders\<close> that overlap: both have read the store
  (\<open>getPendingOrders\<close>) before either has delivered anything, so both loops run over the
  same array of orders. The code holds no lock and no in-flight marker. In this schedule the
  second invocation's store operations follow those of the first.\<close>

definition overlappingDrains ::
  "(pending_order \<Rightarrow> fetch_result) \<Rightarrow> int \<Rightarrow> order_store \<Rightarrow> sync_state \<times> sync_state" where
  "overlappingDrains server now s =
     (let pendingOrders = storeGetAll s;
          first = syncLoop server now pendingOrders \<lparr>store = s, syncResults = [], sent = []\<rparr>;
          second = syncLoop server now pendingOrders
                     \<lparr>store = store first, syncResults = [], sent = []\<rparr>
      in (first, second))"

section \<open>Cache strategy router (service worker)\<close>

record request =
  rq_url :: string
  rq_origin :: string
  rq_pathname :: string
  rq_method :: string
  rq_mode :: string

record response =
  rs_status :: nat
  rs_body :: string

definition rs_ok :: "response \<Rightarrow> bool" where
  "rs_ok r \<longleftrightarrow> 200 \<le> rs_status r \<and> rs_status r \<le> 299"

text \<open>The two named caches, each from request URL to stored response. \<open>caches.match\<close>
  searches them in order of creation: the static cache is opened at install time.\<close>

record sw_caches =
  staticCache :: "string \<rightharpoonup> response"
  dynamicCache :: "string \<rightharpoonup> response"

definition cachesMatch :: "sw_caches \<Rightarrow> string \<Rightarrow> response option" where
  "cachesMatch cs url =
     (case staticCache cs url of Some r \<Rightarrow> Some r | None \<Rightarrow> dynamicCache cs url)"

text \<open>How the promise of a handler settles: fulfilled with a response, fulfilled with
  \<open>undefined\<close> (\<open>Fulfilled None\<close>), or rejected. The network is a function from the request
  to the response \<open>fetch\<close> resolves with; \<open>None\<close> when \<open>fetch\<close> rejects.\<close>

datatype settled = Fulfilled "response option" | Rejected

datatype fetch_event_result = NotIntercepted | RespondWith settled

definition NETWORK_FIRST_URLS :: "string list" where
  "NETWORK_FIRST_URLS = [''/api/'', ''/menu'', ''/orders'']"

definition isStaticAsset :: "string \<Rightarrow> bool" where
  "isStaticAsset pathname \<longleftrightarrow>
     prefix ''/static/'' pathname \<or> suffix ''.js'' pathname \<or> suffix ''.css'' pathname \<or>
     suffix ''.png'' pathname \<or> suffix ''.jpg'' pathname \<or> suffix ''.jpeg'' pathname \<or>
     suffix ''.svg'' pathname \<or> suffix ''.ico'' pathname"

definition cacheFirst :: "(request \<Rightarrow> response option) \<Rightarrow> request \<Rightarrow> sw_caches \<Rightarrow> settled \<times> sw_caches" where
  "cacheFirst network req cs =
     (case cachesMatch cs (rq_url req) of
        Some cachedResponse \<Rightarrow> (Fulfilled (Some cachedResponse), cs)
      | None \<Rightarrow>
          (case network req of
             Some networkResponse \<Rightarrow>
               (Fulfilled (Some networkResponse),
                if rs_ok networkResponse
                then cs\<lparr>staticCache := (staticCache cs)(rq_url req \<mapsto> networkResponse)\<rparr>
                else cs)
           | None \<Rightarrow> (Fulfilled (Some \<lparr>rs_status = 503, rs_body = ''Offline''\<rparr>), cs)))"

text \<open>\<open>networkFirst\<close>. For a navigation request with nothing cached the code returns
  \<open>caches.match('/offline.html') || new Response(...)\<close>: the left operand is a promise,
  hence truthy, so the handler settles with whatever that lookup yields.
  \<open>offlineUrl\<close> is the URL \<open>/offline.html\<close> resolves to.\<close>

definition networkFirst ::
  "string \<Rightarrow> (request \<Rightarrow> response option) \<Rightarrow> request \<Rightarrow> sw_caches \<Rightarrow> settled \<times> sw_caches" where
  "networkFirst offlineUrl network req cs =
     (case network req of
        Some networkResponse \<Rightarrow>
          (Fulfilled (Some networkResponse),
           if rs_ok networkResponse
           then cs\<lparr>dynamicCache := (dynamicCache cs)(rq_url req \<mapsto> networkResponse)\<rparr>
           else cs)
      | None \<Rightarrow>
          (case cachesMatch cs (rq_url req) of
             Some cachedResponse \<Rightarrow> (Fulfilled (Some cachedResponse), cs)
           | None \<Rightarrow>
               if rq_mode req = ''navigate'' then (Fulfilled (cachesMatch cs offlineUrl), cs)
               else (Fulfilled (Some \<lparr>rs_status = 503, rs_body = ''Network error''\<rparr>), cs)))"

definition staleWhileRevalidate ::
  "(request \<Rightarrow> response option) \<Rightarrow> request \<Rightarrow> sw_caches \<Rightarrow> settled \<times> sw_caches" where
  "staleWhileRevalidate network req cs =
     (let cachedResponse = dynamicCache cs (rq_url req);
          fetchPromise = (case network req of
                            Some networkResponse \<Rightarrow> Some networkResponse
                          | None \<Rightarrow> cachedResponse);
          cs' = (case network req of
                   Some networkResponse \<Rightarrow>
                     if rs_ok networkResponse
                     then cs\<lparr>dynamicCache := (dynamicCache cs)(rq_url req \<mapsto> networkResponse)\<rparr>
                     else cs
                 | None \<Rightarrow> cs)
      in (Fulfilled (case cachedResponse of Some r \<Rightarrow> Some r | None \<Rightarrow> fetchPromise), cs'))"

definition handleGetRequest ::
  "string \<Rightarrow> (request \<Rightarrow> response option) \<Rightarrow> request \<Rightarrow> sw_caches \<Rightarrow> settled \<times> sw_caches" where
  "handleGetRequest offlineUrl network req cs =
     (if list_ex (\<lambda>pattern. prefix pattern (rq_pathname req)) NETWORK_FIRST_URLS
      then networkFirst offlineUrl network req cs
      else if isStaticAsset (rq_pathname req) then cacheFirst network req cs
      else staleWhileRevalidate network req cs)"

text \<open>The \<open>fetch\<close> event listener; \<open>locationOrigin\<close> is the worker's own origin.\<close>

definition fetchListener ::
  "string \<Rightarrow> string \<Rightarrow> (request \<Rightarrow> response option) \<Rightarrow> request \<Rightarrow> sw_caches
     \<Rightarrow> fetch_event_result \<times> sw_caches" where
  "fetchListener locationOrigin offlineUrl network req cs =
     (if rq_origin req \<noteq> locationOrigin then (NotIntercepted, cs)
      else if rq_method req = ''GET'' then
        (case handleGetRequest offlineUrl network req cs of (r, cs') \<Rightarrow> (RespondWith r, cs'))
      else
        (case network req of
           Some networkResponse \<Rightarrow> (RespondWith (Fulfilled (Some networkResponse)), cs)
         | None \<Rightarrow> (RespondWith Rejected, cs)))"

section \<open>Concrete inputs\<close>

text \<open>The values at which the theorems below are evaluated.\<close>

definition pizza :: menu_item where
  "pizza = \<lparr>mi_id = ''pizza'', mi_name = ''Pizza'', mi_price = 900, mi_category = ''meat'',
            mi_image_url = '''', mi_preparation_time = 15\<rparr>"

definition duplicateCart :: cart where
  "duplicateCart =
     updateSpecialInstructions ''c2'' ''''
       (addToCart pizza 1 ''no onions'' ''c2'' (addToCart pizza 2 '''' ''c1'' []))"

definition exMenuRow :: "string \<Rightarrow> int \<Rightarrow> menu_row" where
  "exMenuRow i p = \<lparr>mr_id = i, mr_name = ''Pizza'', mr_category = ''meat'', mr_price = p,
                    mr_is_available = True, mr_preparation_time = 15\<rparr>"

definition exOrderRow :: "string \<Rightarrow> string \<Rightarrow> order_row" where
  "exOrderRow i st = \<lparr>or_id = i, or_table_number = 4, or_session_id = ''s1'',
                      or_total_amount = 1200, or_status = st, or_created_at = ''2024-01-01''\<rparr>"

definition exPending :: "string \<Rightarrow> int \<Rightarrow> int option \<Rightarrow> pending_order" where
  "exPending i k t =
     \<lparr>po_id = i,
      po_orderData = \<lparr>od_table_number = 4, od_session_id = ''s1'', od_total_amount = 1200\<rparr>,
      po_status = ''pending_sync'', po_created_offline = True, po_retry_count = k,
      po_last_retry = t, po_timestamp = Some 1, po_updated_at = None\<rparr>"

definition serverError :: "pending_order \<Rightarrow> fetch_result" where
  "serverError order = HttpResponse False (Inr ''{}'')"

definition exOrderData :: order_data where
  "exOrderData = \<lparr>od_table_number = 4, od_session_id = ''s1'', od_total_amount = 1200\<rparr>"

definition serverAccepts :: "pending_order \<Rightarrow> fetch_result" where
  "serverAccepts order = HttpResponse True (Inr ''{id: 77}'')"

text \<open>The store after \<open>addPendingOrder\<close> at time 1000, and after one and two drains that
  the server answered with a non-\<open>ok\<close> response, at times 2000 and 40000.\<close>

definition freshStore :: order_store where
  "freshStore =
     (case addPendingOrder 1000 ''offline_1000_a'' exOrderData [] of
        Inl err \<Rightarrow> [] | Inr (pendingOrder, s) \<Rightarrow> s)"



definition exRequest :: "string \<Rightarrow> string \<Rightarrow> string \<Rightarrow> request" where
  "exRequest path method mode =
     \<lparr>rq_url = ''https://app.example'' @ path, rq_origin = ''https://app.example'',
      rq_pathname = path, rq_method = method, rq_mode = mode\<rparr>"

definition emptyCaches :: sw_caches where
  "emptyCaches = \<lparr>staticCache = Map.empty, dynamicCache = Map.empty\<rparr>"

definition offline :: "request \<Rightarrow> response option" where
  "offline req = None"

definition respondsWith :: "nat \<Rightarrow> request \<Rightarrow> response option" where
  "respondsWith code req = Some \<lparr>rs_status = code, rs_body = ''[]''\<rparr>"

section \<open>Properties of the cart engine\<close>

lemma sameLine_quantity_update [simp]:
  "sameLine a b (x\<lparr>cl_quantity := n\<rparr>) = sameLine a b x"
  by (simp add: sameLine_def)

lemma addToCart_Nil:
  "addToCart m q s cid [] =
     [\<lparr>cl_id = mi_id m, cl_name = mi_name m, cl_price = mi_price m,
       cl_category = mi_category m, cl_image_url = mi_image_url m,
       cl_preparation_time = mi_preparation_time m, cl_quantity = q,
       cl_specialInstructions = s, cl_cartId = cid\<rparr>]"
  by (simp add: addToCart_def)

lemma addToCart_Cons:
  "addToCart m q s cid (x # xs) =
     (if sameLine (mi_id m) s x then x\<lparr>cl_quantity := cl_quantity x + q\<rparr> # xs
      else x # addToCart m q s cid xs)"
  by (simp add: addToCart_def split: option.split)

lemma filter_addToCart_absent:
  "\<forall>x\<in>set c. \<not> sameLine (mi_id m) s x \<Longrightarrow>
   \<exists>l. filter (sameLine (mi_id m) s) (addToCart m q s cid c) = [l] \<and> cl_quantity l = q"
proof (induction c)
  case Nil
  show ?case by (simp add: addToCart_Nil sameLine_def)
next
  case (Cons x xs)
  then show ?case by (simp add: addToCart_Cons)
qed

lemma filter_addToCart_present:
  "filter (sameLine (mi_id m) s) c = [l] \<Longrightarrow>
   filter (sameLine (mi_id m) s) (addToCart m q s cid c) = [l\<lparr>cl_quantity := cl_quantity l + q\<rparr>]"
proof (induction c)
  case Nil
  then show ?case by simp
next
  case (Cons x xs)
  then show ?case by (auto simp: addToCart_Cons split: if_splits)
qed

lemma lineQuantity_absent:
  "\<forall>x\<in>set c. \<not> sameLine a b x \<Longrightarrow> lineQuantity a b c = 0"
  by (induction c) (simp_all add: lineQuantity_def)

lemma lineQuantity_single:
  "filter (sameLine a b) c = [l] \<Longrightarrow> lineQuantity a b c = cl_quantity l"
  by (induction c) (auto simp: lineQuantity_def split: if_splits)

lemma at_most_one_cases:
  "length (filter P c) \<le> 1 \<Longrightarrow> (\<forall>x\<in>set c. \<not> P x) \<or> (\<exists>l. filter P c = [l])"
  by (cases "filter P c") (auto simp: filter_empty_conv)

lemma addToCart_step:
  assumes "length (filter (sameLine (mi_id m) s) c) \<le> 1"
  shows "\<exists>l. filter (sameLine (mi_id m) s) (addToCart m q s cid c) = [l] \<and>
             cl_quantity l = lineQuantity (mi_id m) s c + q"
  using at_most_one_cases [OF assms]
proof
  assume a: "\<forall>x\<in>set c. \<not> sameLine (mi_id m) s x"
  from filter_addToCart_absent [OF a, of q cid] lineQuantity_absent [OF a]
  show ?thesis by simp
next
  assume "\<exists>l. filter (sameLine (mi_id m) s) c = [l]"
  then obtain l where l: "filter (sameLine (mi_id m) s) c = [l]" ..
  from filter_addToCart_present [OF l, of q cid] lineQuantity_single [OF l]
  show ?thesis by simp
qed

lemma addAll_Nil [simp]: "addAll s [] c = c"
  by (simp add: addAll_def)

lemma addAll_Cons:
  "addAll s ((m, q, cid) # calls) c = addAll s calls (addToCart m q s cid c)"
  by (simp add: addAll_def)

lemma addAll_single_line:
  "filter (sameLine mid s) c = [l] \<Longrightarrow> \<forall>call\<in>set calls. mi_id (fst call) = mid \<Longrightarrow>
   \<exists>l'. filter (sameLine mid s) (addAll s calls c) = [l'] \<and>
         cl_quantity l' = cl_quantity l + addedQuantity calls"
proof (induction calls arbitrary: c l)
  case Nil
  then show ?case by (simp add: addedQuantity_def)
next
  case (Cons call calls)
  obtain m q cid where call: "call = (m, q, cid)" by (cases call) auto
  from Cons.prems call have mid: "mi_id m = mid" by simp
  from Cons.prems(1) mid
  have "filter (sameLine mid s) (addToCart m q s cid c) = [l\<lparr>cl_quantity := cl_quantity l + q\<rparr>]"
    using filter_addToCart_present [of m s c l q cid] by simp
  from Cons.IH [OF this] Cons.prems(2)
  show ?case by (simp add: call addAll_Cons addedQuantity_def add.assoc)
qed

lemma filter_addToCart_other:
  "s' \<noteq> s \<Longrightarrow>
   filter (sameLine mid s) (addToCart m q s' cid c) = filter (sameLine mid s) c"
  by (induction c) (auto simp: addToCart_Nil addToCart_Cons sameLine_def)

lemma addToCart_has_line:
  "\<exists>l\<in>set (addToCart m q s cid c). sameLine (mi_id m) s l"
  by (induction c) (auto simp: addToCart_Nil addToCart_Cons sameLine_def)

text \<open>
  Claim C4, as the code has it. For every starting cart that holds at most one line for the
  pair \<open>(menuItemId, specialInstructions)\<close> and every non-empty sequence of
  \<open>addToCart\<close> calls that all use that pair, the resulting cart holds exactly one line for
  the pair, and its quantity is the quantity the pair had initially (0 if absent) plus the sum
  of the quantities added. A further call with a different \<open>specialInstructions\<close> string
  leaves that line as it is, and the cart then holds a line for the other pair, which is a
  different line.
\<close>

theorem addToCart_same_pair:
  assumes "length (filter (sameLine mid s) c) \<le> 1"
    and "calls \<noteq> []"
    and "\<forall>call\<in>set calls. mi_id (fst call) = mid"
  shows "(\<exists>l. filter (sameLine mid s) (addAll s calls c) = [l] \<and>
              cl_quantity l = lineQuantity mid s c + addedQuantity calls) \<and>
         (s' \<noteq> s \<longrightarrow>
            filter (sameLine mid s) (addToCart m' q' s' cid' (addAll s calls c))
              = filter (sameLine mid s) (addAll s calls c) \<and>
            (\<exists>l'\<in>set (addToCart m' q' s' cid' (addAll s calls c)).
               sameLine (mi_id m') s' l' \<and> \<not> sameLine mid s l'))"
proof -
  from assms(2) obtain call rest where calls: "calls = call # rest" by (cases calls) auto
  obtain m q cid where call: "call = (m, q, cid)" by (cases call) auto
  from assms(3) calls call have mid: "mi_id m = mid" by simp
  from addToCart_step [of m s c q cid] assms(1) mid
  obtain l where l: "filter (sameLine mid s) (addToCart m q s cid c) = [l]"
    and ql: "cl_quantity l = lineQuantity mid s c + q" by auto
  from assms(3) calls have rest: "\<forall>call\<in>set rest. mi_id (fst call) = mid" by simp
  from addAll_single_line [OF l rest]
  obtain l' where "filter (sameLine mid s) (addAll s rest (addToCart m q s cid c)) = [l']"
    and "cl_quantity l' = cl_quantity l + addedQuantity rest" by auto
  with ql have first: "\<exists>l. filter (sameLine mid s) (addAll s calls c) = [l] \<and>
              cl_quantity l = lineQuantity mid s c + addedQuantity calls"
    by (simp add: calls call addAll_Cons addedQuantity_def)
  have second: "s' \<noteq> s \<longrightarrow>
            filter (sameLine mid s) (addToCart m' q' s' cid' (addAll s calls c))
              = filter (sameLine mid s) (addAll s calls c) \<and>
            (\<exists>l'\<in>set (addToCart m' q' s' cid' (addAll s calls c)).
               sameLine (mi_id m') s' l' \<and> \<not> sameLine mid s l')"
  proof
    assume ne: "s' \<noteq> s"
    from addToCart_has_line [of m' q' s' cid' "addAll s calls c"]
    obtain l' where "l' \<in> set (addToCart m' q' s' cid' (addAll s calls c))"
      and "sameLine (mi_id m') s' l'" by auto
    moreover from this ne have "\<not> sameLine mid s l'" by (simp add: sameLine_def)
    ultimately show "filter (sameLine mid s) (addToCart m' q' s' cid' (addAll s calls c))
              = filter (sameLine mid s) (addAll s calls c) \<and>
            (\<exists>l'\<in>set (addToCart m' q' s' cid' (addAll s calls c)).
               sameLine (mi_id m') s' l' \<and> \<not> sameLine mid s l')"
      using filter_addToCart_other [OF ne] by blast
  qed
  from first second show ?thesis ..
qed

theorem addToCart_same_pair_witness:
  "(\<exists>l. filter (sameLine ''pizza'' '''')
              (addAll '''' [(pizza, 1, ''c2'')] (addToCart pizza 2 '''' ''c1'' [])) = [l] \<and>
         cl_quantity l = 3) \<and>
   length (addToCart pizza 1 ''no onions'' ''c3''
             (addAll '''' [(pizza, 1, ''c2'')] (addToCart pizza 2 '''' ''c1'' []))) = 2"
proof -
  let ?c = "addToCart pizza 2 '''' ''c1'' []"
  let ?calls = "[(pizza, 1, ''c2'')] :: add_call list"
  have h1: "length (filter (sameLine ''pizza'' '''') ?c) \<le> 1"
    by (simp add: addToCart_def sameLine_def pizza_def)
  have h2: "?calls \<noteq> []" by simp
  have h3: "\<forall>call\<in>set ?calls. mi_id (fst call) = ''pizza''" by (simp add: pizza_def)
  have q: "lineQuantity ''pizza'' '''' ?c + addedQuantity ?calls = 3"
    by (simp add: lineQuantity_def addedQuantity_def addToCart_def sameLine_def pizza_def)
  have len: "length (addToCart pizza 1 ''no onions'' ''c3'' (addAll '''' ?calls ?c)) = 2"
    by (simp add: addAll_def addToCart_def sameLine_def pizza_def)
  from addToCart_same_pair [OF h1 h2 h3, of "''no onions''" pizza 1 "''c3''"] q len
  show ?thesis by simp
qed

text \<open>
  A cart with two lines for one pair is reachable through the cart's own operations (add the
  item plain, add it with a note, then clear the note with \<open>updateSpecialInstructions\<close>);
  from it, \<open>addToCart\<close> for that pair leaves two lines, of quantities 3 and 1.
\<close>

theorem addToCart_duplicate_lines_counterexample:
  "map cl_quantity
     (filter (sameLine ''pizza'' '''') (addAll '''' [(pizza, 1, ''c3'')] duplicateCart)) = [3, 1]"
  by (simp add: addAll_def addToCart_def duplicateCart_def updateSpecialInstructions_def
      pizza_def sameLine_def)

text \<open>
  Claim C9. \<open>updateQuantity\<close> with a quantity \<open>n \<le> 0\<close> produces exactly the cart
  that \<open>removeFromCart\<close> produces for the same id; and when the id matches no line, both
  \<open>updateQuantity\<close> (with any quantity) and \<open>removeFromCart\<close> return the cart unchanged.
  Both are total functions of the cart: there is no error path.
\<close>

theorem updateQuantity_zero_is_remove:
  "(n \<le> 0 \<longrightarrow> updateQuantity cartId n c = removeFromCart cartId c) \<and>
   ((\<forall>item\<in>set c. cl_cartId item \<noteq> cartId) \<longrightarrow>
      updateQuantity cartId k c = c \<and> removeFromCart cartId c = c)"
proof (intro conjI impI)
  assume "n \<le> 0"
  then show "updateQuantity cartId n c = removeFromCart cartId c"
    by (simp add: updateQuantity_def)
next
  assume a: "\<forall>item\<in>set c. cl_cartId item \<noteq> cartId"
  then show r: "removeFromCart cartId c = c"
    by (simp add: removeFromCart_def)
  from a have "map (\<lambda>item. if cl_cartId item = cartId then item\<lparr>cl_quantity := k\<rparr> else item) c = c"
    by (induction c) simp_all
  with r show "updateQuantity cartId k c = c"
    by (simp add: updateQuantity_def)
qed

theorem updateQuantity_zero_is_remove_witness:
  "updateQuantity ''c1'' 0 (addToCart pizza 2 '''' ''c1'' []) = [] \<and>
   removeFromCart ''c1'' (addToCart pizza 2 '''' ''c1'' []) = [] \<and>
   updateQuantity ''c9'' 5 (addToCart pizza 2 '''' ''c1'' []) = addToCart pizza 2 '''' ''c1'' [] \<and>
   removeFromCart ''c9'' (addToCart pizza 2 '''' ''c1'' []) = addToCart pizza 2 '''' ''c1'' []"
proof -
  let ?c = "addToCart pizza 2 '''' ''c1'' []"
  have r: "removeFromCart ''c1'' ?c = []"
    by (simp add: removeFromCart_def addToCart_def)
  have a: "\<forall>item\<in>set ?c. cl_cartId item \<noteq> ''c9''"
    by (simp add: addToCart_def)
  from updateQuantity_zero_is_remove [of 0 "''c1''" ?c] r
  have "updateQuantity ''c1'' 0 ?c = []" by simp
  moreover from updateQuantity_zero_is_remove [of 0 "''c9''" ?c 5] a
  have "updateQuantity ''c9'' 5 ?c = ?c \<and> removeFromCart ''c9'' ?c = ?c" by blast
  ultimately show ?thesis using r by simp
qed

text \<open>
  Claim C10. While the cart is empty, \<open>validateCart\<close> returns
  \<open>{ valid: true, unavailableItems: [] }\<close> and leaves the whole state as it is: the cart,
  the loading flag, and the record of calls made to the availability-check capability, which
  is therefore not invoked.
\<close>

theorem validateCart_empty:
  "cart st = [] \<Longrightarrow> validateCart checkAvailabilityFn st = (Validation True [], st)"
  by (simp add: validateCart_def)

theorem validateCart_empty_witness:
  "validateCart (\<lambda>ids. Inl ''unreachable'') \<lparr>cart = [], isLoading = False, checkCalls = []\<rparr>
     = (Validation True [], \<lparr>cart = [], isLoading = False, checkCalls = []\<rparr>)"
  using validateCart_empty [of "\<lparr>cart = [], isLoading = False, checkCalls = []\<rparr>"
      "\<lambda>ids. Inl ''unreachable''"]
  by simp

section \<open>Properties of the realtime reconciler\<close>

lemma map_replace_idem:
  "map (\<lambda>x. if f x = f n then n else x) (map (\<lambda>x. if f x = f n then n else x) xs) =
   map (\<lambda>x. if f x = f n then n else x) xs"
  by (induction xs) simp_all

lemma orderUpdateHandler_idem:
  "orderUpdateHandler rf p (orderUpdateHandler rf p os) = orderUpdateHandler rf p os"
proof (cases p)
  case (INSERT n)
  then show ?thesis by (simp add: orderUpdateHandler_def Let_def)
next
  case (UPDATE n ol)
  then show ?thesis by (simp add: orderUpdateHandler_def map_replace_idem del: map_map)
next
  case (DELETE ol)
  then show ?thesis by (simp add: orderUpdateHandler_def)
next
  case (OTHER s)
  then show ?thesis by (simp add: orderUpdateHandler_def split: option.split)
qed

lemma menuUpdateHandler_idem:
  "\<forall>n. p \<noteq> INSERT n \<Longrightarrow>
   menuUpdateHandler rf p (menuUpdateHandler rf p items) = menuUpdateHandler rf p items"
proof (cases p)
  case (INSERT n)
  assume "\<forall>n. p \<noteq> INSERT n"
  with INSERT show ?thesis by simp
next
  case (UPDATE n ol)
  then show ?thesis by (simp add: menuUpdateHandler_def map_replace_idem del: map_map)
next
  case (DELETE ol)
  then show ?thesis by (simp add: menuUpdateHandler_def)
next
  case (OTHER s)
  then show ?thesis by (simp add: menuUpdateHandler_def split: option.split)
qed

lemma map_replace_absent:
  "\<forall>x\<in>set xs. f x \<noteq> f n \<Longrightarrow> map (\<lambda>x. if f x = f n then n else x) xs = xs"
  by (induction xs) simp_all

text \<open>
  Claim C2, as the code has it. For every update or delete event on the menu mirror, and for
  every insert, update or delete event on the orders mirror, applying the event twice in
  immediate succession yields the same collection as applying it once. A duplicate insert on
  the orders mirror for an id already present creates no second entry and leaves the collection
  as it is: the entry already present is kept, not replaced.
\<close>

theorem reconcile_twice_is_once:
  "((\<forall>n. p \<noteq> INSERT n) \<longrightarrow>
      menuUpdateHandler rf p (menuUpdateHandler rf p items) = menuUpdateHandler rf p items) \<and>
   orderUpdateHandler rf' q (orderUpdateHandler rf' q orders) = orderUpdateHandler rf' q orders \<and>
   (list_ex (\<lambda>order. or_id order = or_id n) orders \<longrightarrow>
      orderUpdateHandler rf' (INSERT n) orders = orders)"
  using menuUpdateHandler_idem [of p rf items] orderUpdateHandler_idem [of rf' q orders]
  by (simp add: orderUpdateHandler_def)

theorem reconcile_twice_is_once_witness:
  "menuUpdateHandler None (DELETE (exMenuRow ''m1'' 900))
     (menuUpdateHandler None (DELETE (exMenuRow ''m1'' 900)) [exMenuRow ''m1'' 900, exMenuRow ''m2'' 700])
   = menuUpdateHandler None (DELETE (exMenuRow ''m1'' 900)) [exMenuRow ''m1'' 900, exMenuRow ''m2'' 700] \<and>
   list_ex (\<lambda>order. or_id order = or_id (exOrderRow ''o1'' ''confirmed'')) [exOrderRow ''o1'' ''pending''] \<and>
   orderUpdateHandler None (INSERT (exOrderRow ''o1'' ''confirmed'')) [exOrderRow ''o1'' ''pending'']
     = [exOrderRow ''o1'' ''pending'']"
  using reconcile_twice_is_once [of "DELETE (exMenuRow ''m1'' 900)" None
      "[exMenuRow ''m1'' 900, exMenuRow ''m2'' 700]" None "INSERT (exOrderRow ''o1'' ''confirmed'')"
      "[exOrderRow ''o1'' ''pending'']" "exOrderRow ''o1'' ''confirmed''"]
  by (simp add: exOrderRow_def)

text \<open>
  Applied twice to the empty menu mirror, an insert leaves two entries; and on the orders
  mirror a duplicate insert that carries a newer row does not act as the update would.
\<close>

theorem reconcile_duplicate_insert_counterexample:
  "menuUpdateHandler None (INSERT (exMenuRow ''m1'' 900))
     (menuUpdateHandler None (INSERT (exMenuRow ''m1'' 900)) [])
     \<noteq> menuUpdateHandler None (INSERT (exMenuRow ''m1'' 900)) [] \<and>
   orderUpdateHandler None (INSERT (exOrderRow ''o1'' ''confirmed'')) [exOrderRow ''o1'' ''pending'']
     \<noteq> orderUpdateHandler None (UPDATE (exOrderRow ''o1'' ''confirmed'') (exOrderRow ''o1'' ''pending''))
          [exOrderRow ''o1'' ''pending'']"
  by (simp add: menuUpdateHandler_def orderUpdateHandler_def exOrderRow_def)

text \<open>
  Claim C7, as the code has it. For every update event whose record id is absent from the
  local mirror (menu or orders), the handler leaves the collection unchanged: the event is not
  treated as an insert.
\<close>

theorem update_absent_unchanged:
  "(\<not> list_ex (\<lambda>item. mr_id item = mr_id n) items \<longrightarrow>
      menuUpdateHandler rf (UPDATE n ol) items = items) \<and>
   (\<not> list_ex (\<lambda>order. or_id order = or_id m) orders \<longrightarrow>
      orderUpdateHandler rf' (UPDATE m ol') orders = orders)"
  using map_replace_absent [of items mr_id n] map_replace_absent [of orders or_id m]
  by (simp add: menuUpdateHandler_def orderUpdateHandler_def list_ex_iff)

theorem update_absent_unchanged_witness:
  "\<not> list_ex (\<lambda>item. mr_id item = mr_id (exMenuRow ''m2'' 700)) [exMenuRow ''m1'' 900] \<and>
   menuUpdateHandler None (UPDATE (exMenuRow ''m2'' 700) (exMenuRow ''m2'' 600)) [exMenuRow ''m1'' 900]
     = [exMenuRow ''m1'' 900] \<and>
   \<not> list_ex (\<lambda>order. or_id order = or_id (exOrderRow ''o2'' ''ready'')) [exOrderRow ''o1'' ''pending''] \<and>
   orderUpdateHandler None (UPDATE (exOrderRow ''o2'' ''ready'') (exOrderRow ''o2'' ''pending''))
     [exOrderRow ''o1'' ''pending''] = [exOrderRow ''o1'' ''pending'']"
  using update_absent_unchanged [of "exMenuRow ''m2'' 700" "[exMenuRow ''m1'' 900]" None
      "exMenuRow ''m2'' 600" "exOrderRow ''o2'' ''ready''" "[exOrderRow ''o1'' ''pending'']" None
      "exOrderRow ''o2'' ''pending''"]
  by (simp add: exMenuRow_def exOrderRow_def)

text \<open>
  After an update event for an absent id, no entity with that id is in the collection.
\<close>

theorem update_absent_counterexample:
  "\<not> list_ex (\<lambda>item. mr_id item = mr_id (exMenuRow ''m2'' 700))
        (menuUpdateHandler None (UPDATE (exMenuRow ''m2'' 700) (exMenuRow ''m2'' 600))
           [exMenuRow ''m1'' 900]) \<and>
   \<not> list_ex (\<lambda>order. or_id order = or_id (exOrderRow ''o2'' ''ready''))
        (orderUpdateHandler None (UPDATE (exOrderRow ''o2'' ''ready'') (exOrderRow ''o2'' ''pending''))
           [])"
  by (simp add: menuUpdateHandler_def orderUpdateHandler_def exMenuRow_def)

section \<open>Properties of the offline order queue\<close>

lemma sent_syncOne: "sent (syncOne server now order st) = sent st @ [po_id order]"
  by (simp add: syncOne_def Let_def split: fetch_result.split sum.split)

lemma sent_syncLoop: "sent (syncLoop server now orders st) = sent st @ map po_id orders"
  by (induction orders arbitrary: st) (simp_all add: sent_syncOne)

lemma sent_syncPendingOrders: "sent (syncPendingOrders server now s) = map po_id s"
  by (simp add: syncPendingOrders_def storeGetAll_def sent_syncLoop)

lemma storeDelete_absent: "key \<notin> po_id ` set (storeDelete key s)"
  by (auto simp: storeDelete_def)

lemma storeDelete_keeps_absent: "k \<notin> po_id ` set s \<Longrightarrow> k \<notin> po_id ` set (storeDelete key s)"
  by (auto simp: storeDelete_def)

lemma storageUpdate_keeps_absent:
  "k \<notin> po_id ` set s \<Longrightarrow> k \<noteq> po_id r \<Longrightarrow> k \<notin> po_id ` set (storageUpdate now r s)"
  by (auto simp: storageUpdate_def storePut_def storeDelete_def set_insort_key)

lemma syncOne_keeps_absent:
  "k \<notin> po_id ` set (store st) \<Longrightarrow> k \<noteq> po_id order \<Longrightarrow>
   k \<notin> po_id ` set (store (syncOne server now order st))"
  by (simp add: syncOne_def Let_def storeDelete_keeps_absent storageUpdate_keeps_absent
      split: fetch_result.split sum.split)

lemma syncOne_delivered:
  "server order = HttpResponse True (Inr syncedOrder) \<Longrightarrow>
   po_id order \<notin> po_id ` set (store (syncOne server now order st))"
  by (simp add: syncOne_def Let_def storeDelete_absent)

lemma syncLoop_keeps_absent:
  "k \<notin> po_id ` set (store st) \<Longrightarrow> k \<notin> po_id ` set orders \<Longrightarrow>
   k \<notin> po_id ` set (store (syncLoop server now orders st))"
proof (induction orders arbitrary: st)
  case Nil
  then show ?case by simp
next
  case (Cons order orders)
  from Cons.prems have "k \<notin> po_id ` set (store (syncOne server now order st))"
    by (intro syncOne_keeps_absent) auto
  moreover from Cons.prems have "k \<notin> po_id ` set orders" by simp
  ultimately show ?case using Cons.IH by simp
qed

lemma syncLoop_delivered:
  "distinct (map po_id orders) \<Longrightarrow> order \<in> set orders \<Longrightarrow>
   server order = HttpResponse True (Inr syncedOrder) \<Longrightarrow>
   po_id order \<notin> po_id ` set (store (syncLoop server now orders st))"
proof (induction orders arbitrary: st)
  case Nil
  then show ?case by simp
next
  case (Cons x orders)
  show ?case
  proof (cases "order = x")
    case True
    with Cons.prems(3) have "po_id x \<notin> po_id ` set (store (syncOne server now x st))"
      by (simp add: syncOne_delivered)
    moreover from Cons.prems(1) have "po_id x \<notin> po_id ` set orders" by simp
    ultimately show ?thesis using True syncLoop_keeps_absent by simp
  next
    case False
    with Cons.prems have "order \<in> set orders" and "distinct (map po_id orders)" by simp_all
    with Cons.IH Cons.prems(3) show ?thesis by simp
  qed
qed



text \<open>
  Claim C1, as the code has it. A pending order whose \<open>retry_count\<close> has reached 3 no
  longer counts as eligible for \<open>retryFailedOrders\<close>: when every stored order has a
  \<open>retry_count\<close> of 3 or more, \<open>retryFailedOrders\<close> issues no delivery attempt and
  leaves the store, and with it each order's status \<open>pending_sync\<close>, as it is.
\<close>

theorem retry_exhausted_no_attempt:
  assumes "\<forall>order\<in>set s. po_retry_count order \<ge> 3"
  shows "retryFailedOrders server now s = \<lparr>store = s, syncResults = [], sent = []\<rparr>"
proof -
  from assms have "filter (retryEligible now) s = []"
    by (auto simp: filter_empty_conv retryEligible_def)
  then show ?thesis by (simp add: retryFailedOrders_def storeGetAll_def)
qed

theorem retry_exhausted_no_attempt_witness:
  "po_retry_count (exPending ''offline_1'' 3 (Some 5)) = 3 \<and>
   po_retry_count (exPending ''offline_2'' 4 None) = 4 \<and>
   retryFailedOrders serverError 100000 [exPending ''offline_1'' 3 (Some 5), exPending ''offline_2'' 4 None]
     = \<lparr>store = [exPending ''offline_1'' 3 (Some 5), exPending ''offline_2'' 4 None],
        syncResults = [], sent = []\<rparr>"
proof -
  have h: "\<forall>order\<in>set [exPending ''offline_1'' 3 (Some 5), exPending ''offline_2'' 4 None].
      po_retry_count order \<ge> 3"
    by (simp add: exPending_def)
  from retry_exhausted_no_attempt [OF h] show ?thesis by (simp add: exPending_def)
qed

text \<open>
  \<open>syncPendingOrders\<close> posts an order whose \<open>retry_count\<close> is 3 and raises the count to
  4; \<open>retryFailedOrders\<close> posts it as well as soon as another stored order is eligible.
\<close>

theorem retry_exhausted_counterexample:
  "po_retry_count (exPending ''offline_1'' 3 None) = 3 \<and>
   sent (syncPendingOrders serverError 100000 [exPending ''offline_1'' 3 None]) = [''offline_1''] \<and>
   map po_retry_count (store (syncPendingOrders serverError 100000 [exPending ''offline_1'' 3 None])) = [4] \<and>
   sent (retryFailedOrders serverError 100000
           [exPending ''offline_1'' 3 None, exPending ''offline_2'' 0 None])
     = [''offline_1'', ''offline_2'']"
  by (simp add: retryFailedOrders_def retryEligible_def syncPendingOrders_def storeGetAll_def
      syncOne_def storageUpdate_def storePut_def storeDelete_def exPending_def serverError_def)

text \<open>
  Claim C3, as the code has it. In a store whose records have distinct ids, an order that a
  drain delivers successfully is deleted from the store, and a drain that reads the store
  after that, whether \<open>syncPendingOrders\<close> or \<open>retryFailedOrders\<close>, makes no
  delivery attempt for it. This covers invocations that run one after the other; the code
  holds no lock and no in-flight marker for invocations that overlap.
\<close>

theorem delivered_not_resent_by_later_drain:
  assumes "distinct (map po_id s)" and "order \<in> set s"
    and "server order = HttpResponse True (Inr syncedOrder)"
  shows "po_id order \<notin> set (sent (syncPendingOrders laterServer laterNow
                                      (store (syncPendingOrders server now s)))) \<and>
         po_id order \<notin> set (sent (retryFailedOrders laterServer laterNow
                                      (store (syncPendingOrders server now s))))"
proof -
  from syncLoop_delivered [where server = server and orders = s and order = order, OF assms]
  have absent: "po_id order \<notin> po_id ` set (store (syncPendingOrders server now s))"
    by (simp add: syncPendingOrders_def storeGetAll_def)
  then have first: "po_id order \<notin> set (sent (syncPendingOrders laterServer laterNow
                                      (store (syncPendingOrders server now s))))"
    by (simp add: sent_syncPendingOrders)
  then show ?thesis by (simp add: retryFailedOrders_def Let_def)
qed

theorem delivered_not_resent_by_later_drain_witness:
  "map po_id freshStore = [''offline_1000_a''] \<and>
   sent (syncPendingOrders serverAccepts 2000 freshStore) = [''offline_1000_a''] \<and>
   ''offline_1000_a'' \<notin> set (sent (syncPendingOrders serverAccepts 3000
                                  (store (syncPendingOrders serverAccepts 2000 freshStore)))) \<and>
   ''offline_1000_a'' \<notin> set (sent (retryFailedOrders serverAccepts 3000
                                  (store (syncPendingOrders serverAccepts 2000 freshStore))))"
proof -
  let ?order = "\<lparr>po_id = ''offline_1000_a'', po_orderData = exOrderData,
       po_status = ''pending_sync'', po_created_offline = True, po_retry_count = 0,
       po_last_retry = None, po_timestamp = Some 1000, po_updated_at = None\<rparr>"
  have f: "freshStore = [?order]"
    by (simp add: freshStore_def addPendingOrder_def storageAdd_def)
  have d: "distinct (map po_id freshStore)" by (simp add: f)
  have m: "?order \<in> set freshStore" by (simp add: f)
  have a: "serverAccepts ?order = HttpResponse True (Inr ''{id: 77}'')"
    by (simp add: serverAccepts_def)
  from delivered_not_resent_by_later_drain [where server = serverAccepts and s = freshStore
      and laterServer = serverAccepts and laterNow = 3000 and now = 2000, OF d m a]
  show ?thesis by (simp add: sent_syncPendingOrders f)
qed

text \<open>
  Two invocations that both read the store before either delivers: the one stored order is
  posted by each of them, and each records a success for it.
\<close>

theorem overlapping_drains_counterexample:
  "sent (fst (overlappingDrains serverAccepts 2000 freshStore)) = [''offline_1000_a''] \<and>
   syncResults (fst (overlappingDrains serverAccepts 2000 freshStore)) = [SyncSuccess ''{id: 77}''] \<and>
   sent (snd (overlappingDrains serverAccepts 2000 freshStore)) = [''offline_1000_a''] \<and>
   syncResults (snd (overlappingDrains serverAccepts 2000 freshStore)) = [SyncSuccess ''{id: 77}'']"
  by (simp add: overlappingDrains_def Let_def storeGetAll_def freshStore_def addPendingOrder_def
      storageAdd_def syncOne_def serverAccepts_def storeDelete_def)




section \<open>Properties of the cache strategy router\<close>

lemma handleGetRequest_resolves:
  assumes "list_ex (\<lambda>pattern. prefix pattern (rq_pathname req)) NETWORK_FIRST_URLS \<longrightarrow>
           rq_mode req \<noteq> ''navigate'' \<or> network req \<noteq> None \<or> cachesMatch cs (rq_url req) \<noteq> None"
    and "\<not> list_ex (\<lambda>pattern. prefix pattern (rq_pathname req)) NETWORK_FIRST_URLS \<and>
         \<not> isStaticAsset (rq_pathname req) \<longrightarrow>
           network req \<noteq> None \<or> dynamicCache cs (rq_url req) \<noteq> None"
  shows "\<exists>r. fst (handleGetRequest offlineUrl network req cs) = Fulfilled (Some r)"
proof (cases "list_ex (\<lambda>pattern. prefix pattern (rq_pathname req)) NETWORK_FIRST_URLS")
  case True
  with assms(1) show ?thesis
    by (auto simp: handleGetRequest_def networkFirst_def split: option.split)
next
  case nf: False
  show ?thesis
  proof (cases "isStaticAsset (rq_pathname req)")
    case True
    with nf show ?thesis
      by (simp add: handleGetRequest_def cacheFirst_def split: option.split)
  next
    case False
    with nf assms(2) show ?thesis
      by (auto simp: handleGetRequest_def staleWhileRevalidate_def Let_def split: option.split)
  qed
qed

text \<open>
  Claim C5, as the code has it. Every same-origin GET request is answered with a response
  (cached, from the network, or a synthetic 503) when it is routed cache-first; when it is
  routed network-first and is not a navigation, or the network answers, or a copy is cached;
  and when it is routed stale-while-revalidate and the network answers or a copy is in the
  dynamic cache. A same-origin request with any other method is handed to \<open>fetch\<close> as it is,
  and the outcome of \<open>fetch\<close>, a rejection included, is the outcome of the router.
\<close>

theorem router_outcomes:
  assumes "rq_origin req = locationOrigin"
  shows "(rq_method req = ''GET'' \<and>
          (list_ex (\<lambda>pattern. prefix pattern (rq_pathname req)) NETWORK_FIRST_URLS \<longrightarrow>
             rq_mode req \<noteq> ''navigate'' \<or> network req \<noteq> None \<or>
             cachesMatch cs (rq_url req) \<noteq> None) \<and>
          (\<not> list_ex (\<lambda>pattern. prefix pattern (rq_pathname req)) NETWORK_FIRST_URLS \<and>
           \<not> isStaticAsset (rq_pathname req) \<longrightarrow>
             network req \<noteq> None \<or> dynamicCache cs (rq_url req) \<noteq> None) \<longrightarrow>
          (\<exists>r. fst (fetchListener locationOrigin offlineUrl network req cs)
                 = RespondWith (Fulfilled (Some r)))) \<and>
         (rq_method req \<noteq> ''GET'' \<longrightarrow>
          fetchListener locationOrigin offlineUrl network req cs
            = (RespondWith (case network req of Some r \<Rightarrow> Fulfilled (Some r) | None \<Rightarrow> Rejected),
               cs))"
proof (intro conjI impI)
  assume a: "rq_method req = ''GET'' \<and>
          (list_ex (\<lambda>pattern. prefix pattern (rq_pathname req)) NETWORK_FIRST_URLS \<longrightarrow>
             rq_mode req \<noteq> ''navigate'' \<or> network req \<noteq> None \<or>
             cachesMatch cs (rq_url req) \<noteq> None) \<and>
          (\<not> list_ex (\<lambda>pattern. prefix pattern (rq_pathname req)) NETWORK_FIRST_URLS \<and>
           \<not> isStaticAsset (rq_pathname req) \<longrightarrow>
             network req \<noteq> None \<or> dynamicCache cs (rq_url req) \<noteq> None)"
  then have "\<exists>r. fst (handleGetRequest offlineUrl network req cs) = Fulfilled (Some r)"
    using handleGetRequest_resolves [of req network cs offlineUrl] by blast
  moreover have "fst (fetchListener locationOrigin offlineUrl network req cs)
             = RespondWith (fst (handleGetRequest offlineUrl network req cs))"
    using assms a by (simp add: fetchListener_def split: prod.split)
  ultimately show "\<exists>r. fst (fetchListener locationOrigin offlineUrl network req cs)
                 = RespondWith (Fulfilled (Some r))"
    by simp
next
  assume "rq_method req \<noteq> ''GET''"
  with assms show "fetchListener locationOrigin offlineUrl network req cs
            = (RespondWith (case network req of Some r \<Rightarrow> Fulfilled (Some r) | None \<Rightarrow> Rejected),
               cs)"
    by (simp add: fetchListener_def split: option.split)
qed

theorem router_outcomes_witness:
  "fst (fetchListener ''https://app.example'' ''https://app.example/offline.html'' offline
          (exRequest ''/menu'' ''GET'' ''cors'') emptyCaches)
     = RespondWith (Fulfilled (Some \<lparr>rs_status = 503, rs_body = ''Network error''\<rparr>)) \<and>
   fetchListener ''https://app.example'' ''https://app.example/offline.html'' (respondsWith 201)
          (exRequest ''/api/orders'' ''POST'' ''cors'') emptyCaches
     = (RespondWith (Fulfilled (Some \<lparr>rs_status = 201, rs_body = ''[]''\<rparr>)), emptyCaches)"
proof -
  let ?get = "exRequest ''/menu'' ''GET'' ''cors''"
  let ?post = "exRequest ''/api/orders'' ''POST'' ''cors''"
  let ?off = "''https://app.example/offline.html''"
  have o1: "rq_origin ?get = ''https://app.example''" by (simp add: exRequest_def)
  have o2: "rq_origin ?post = ''https://app.example''" by (simp add: exRequest_def)
  have g: "rq_method ?get = ''GET'' \<and>
          (list_ex (\<lambda>pattern. prefix pattern (rq_pathname ?get)) NETWORK_FIRST_URLS \<longrightarrow>
             rq_mode ?get \<noteq> ''navigate'' \<or> offline ?get \<noteq> None \<or>
             cachesMatch emptyCaches (rq_url ?get) \<noteq> None) \<and>
          (\<not> list_ex (\<lambda>pattern. prefix pattern (rq_pathname ?get)) NETWORK_FIRST_URLS \<and>
           \<not> isStaticAsset (rq_pathname ?get) \<longrightarrow>
             offline ?get \<noteq> None \<or> dynamicCache emptyCaches (rq_url ?get) \<noteq> None)"
    by (simp add: exRequest_def NETWORK_FIRST_URLS_def)
  have p: "rq_method ?post \<noteq> ''GET''" by (simp add: exRequest_def)
  from router_outcomes [where req = ?get and network = offline and cs = emptyCaches
      and offlineUrl = ?off, OF o1] g
  obtain r where "fst (fetchListener ''https://app.example'' ?off offline ?get emptyCaches)
      = RespondWith (Fulfilled (Some r))" by blast
  then have first: "fst (fetchListener ''https://app.example'' ?off offline ?get emptyCaches)
     = RespondWith (Fulfilled (Some \<lparr>rs_status = 503, rs_body = ''Network error''\<rparr>))"
    by (simp add: fetchListener_def handleGetRequest_def networkFirst_def NETWORK_FIRST_URLS_def
        exRequest_def emptyCaches_def offline_def cachesMatch_def)
  from router_outcomes [where req = ?post and network = "respondsWith 201" and cs = emptyCaches
      and offlineUrl = ?off, OF o2] p
  have "fetchListener ''https://app.example'' ?off (respondsWith 201) ?post emptyCaches
     = (RespondWith (Fulfilled (Some \<lparr>rs_status = 201, rs_body = ''[]''\<rparr>)), emptyCaches)"
    by (simp add: respondsWith_def)
  with first show ?thesis by simp
qed

text \<open>
  A same-origin POST with the network down: the promise given to \<open>respondWith\<close> rejects.
\<close>

theorem router_post_rejects_counterexample:
  "fst (fetchListener ''https://app.example'' ''https://app.example/offline.html'' offline
          (exRequest ''/api/orders'' ''POST'' ''cors'') emptyCaches) = RespondWith Rejected"
  by (simp add: fetchListener_def exRequest_def offline_def)

text \<open>
  Claim C6, as the code has it. For every GET request that \<open>handleGetRequest\<close> routes to
  the network-first strategy: a network response with an \<open>ok\<close> status (200 to 299) is stored
  in the dynamic cache and returned; a network response with any other status is returned and
  not stored; when the network attempt fails and a cached copy exists, the cached copy is
  returned; when the network attempt fails, no cached copy exists and the request is not a
  navigation, the synthetic response \<open>Network error\<close> with status 503 is returned.
\<close>

theorem networkFirst_cases:
  assumes "list_ex (\<lambda>pattern. prefix pattern (rq_pathname req)) NETWORK_FIRST_URLS"
  shows
  "(network req = Some nr \<and> rs_ok nr \<longrightarrow>
      handleGetRequest offlineUrl network req cs
        = (Fulfilled (Some nr), cs\<lparr>dynamicCache := (dynamicCache cs)(rq_url req \<mapsto> nr)\<rparr>)) \<and>
   (network req = Some nr \<and> \<not> rs_ok nr \<longrightarrow>
      handleGetRequest offlineUrl network req cs = (Fulfilled (Some nr), cs)) \<and>
   (network req = None \<and> cachesMatch cs (rq_url req) = Some cached \<longrightarrow>
      handleGetRequest offlineUrl network req cs = (Fulfilled (Some cached), cs)) \<and>
   (network req = None \<and> cachesMatch cs (rq_url req) = None \<and> rq_mode req \<noteq> ''navigate'' \<longrightarrow>
      handleGetRequest offlineUrl network req cs
        = (Fulfilled (Some \<lparr>rs_status = 503, rs_body = ''Network error''\<rparr>), cs))"
  using assms by (simp add: handleGetRequest_def networkFirst_def)

theorem networkFirst_cases_witness:
  "handleGetRequest ''https://app.example/offline.html'' (respondsWith 200)
      (exRequest ''/menu'' ''GET'' ''cors'') emptyCaches
     = (Fulfilled (Some \<lparr>rs_status = 200, rs_body = ''[]''\<rparr>),
        emptyCaches\<lparr>dynamicCache := (dynamicCache emptyCaches)
           (''https://app.example/menu'' \<mapsto> \<lparr>rs_status = 200, rs_body = ''[]''\<rparr>)\<rparr>) \<and>
   handleGetRequest ''https://app.example/offline.html'' (respondsWith 500)
      (exRequest ''/menu'' ''GET'' ''cors'') emptyCaches
     = (Fulfilled (Some \<lparr>rs_status = 500, rs_body = ''[]''\<rparr>), emptyCaches) \<and>
   handleGetRequest ''https://app.example/offline.html'' offline (exRequest ''/menu'' ''GET'' ''cors'')
      (emptyCaches\<lparr>dynamicCache := (dynamicCache emptyCaches)
           (''https://app.example/menu'' \<mapsto> \<lparr>rs_status = 200, rs_body = ''[]''\<rparr>)\<rparr>)
     = (Fulfilled (Some \<lparr>rs_status = 200, rs_body = ''[]''\<rparr>),
        emptyCaches\<lparr>dynamicCache := (dynamicCache emptyCaches)
           (''https://app.example/menu'' \<mapsto> \<lparr>rs_status = 200, rs_body = ''[]''\<rparr>)\<rparr>) \<and>
   handleGetRequest ''https://app.example/offline.html'' offline (exRequest ''/menu'' ''GET'' ''cors'')
      emptyCaches
     = (Fulfilled (Some \<lparr>rs_status = 503, rs_body = ''Network error''\<rparr>), emptyCaches)"
proof -
  let ?req = "exRequest ''/menu'' ''GET'' ''cors''"
  let ?off = "''https://app.example/offline.html''"
  let ?r200 = "\<lparr>rs_status = 200, rs_body = ''[]''\<rparr>"
  let ?r500 = "\<lparr>rs_status = 500, rs_body = ''[]''\<rparr>"
  let ?warm = "emptyCaches\<lparr>dynamicCache := (dynamicCache emptyCaches)
           (''https://app.example/menu'' \<mapsto> ?r200)\<rparr>"
  have nf: "list_ex (\<lambda>pattern. prefix pattern (rq_pathname ?req)) NETWORK_FIRST_URLS"
    by (simp add: exRequest_def NETWORK_FIRST_URLS_def)
  from networkFirst_cases [OF nf, where network = "respondsWith 200" and nr = ?r200
      and offlineUrl = ?off and cs = emptyCaches]
  have c1: "handleGetRequest ?off (respondsWith 200) ?req emptyCaches
     = (Fulfilled (Some ?r200), ?warm)"
    by (simp add: respondsWith_def rs_ok_def exRequest_def)
  from networkFirst_cases [OF nf, where network = "respondsWith 500" and nr = ?r500
      and offlineUrl = ?off and cs = emptyCaches]
  have c2: "handleGetRequest ?off (respondsWith 500) ?req emptyCaches
     = (Fulfilled (Some ?r500), emptyCaches)"
    by (simp add: respondsWith_def rs_ok_def)
  from networkFirst_cases [OF nf, where network = offline and cached = ?r200
      and offlineUrl = ?off and cs = ?warm]
  have c3: "handleGetRequest ?off offline ?req ?warm = (Fulfilled (Some ?r200), ?warm)"
    by (simp add: offline_def exRequest_def emptyCaches_def cachesMatch_def)
  from networkFirst_cases [OF nf, where network = offline
      and offlineUrl = ?off and cs = emptyCaches]
  have c4: "handleGetRequest ?off offline ?req emptyCaches
     = (Fulfilled (Some \<lparr>rs_status = 503, rs_body = ''Network error''\<rparr>), emptyCaches)"
    by (simp add: offline_def exRequest_def emptyCaches_def cachesMatch_def)
  from c1 c2 c3 c4 show ?thesis by simp
qed

text \<open>
  For \<open>GET /menu\<close>: a network response with status 500 is returned without being stored;
  and a navigation request with the network down and nothing cached settles with
  \<open>undefined\<close>, not with a response.
\<close>

theorem networkFirst_counterexample:
  "handleGetRequest ''https://app.example/offline.html'' (respondsWith 500)
      (exRequest ''/menu'' ''GET'' ''cors'') emptyCaches
     = (Fulfilled (Some \<lparr>rs_status = 500, rs_body = ''[]''\<rparr>), emptyCaches) \<and>
   fst (handleGetRequest ''https://app.example/offline.html'' offline
      (exRequest ''/menu'' ''GET'' ''navigate'') emptyCaches) = Fulfilled None"
  by (simp add: handleGetRequest_def NETWORK_FIRST_URLS_def networkFirst_def respondsWith_def
      rs_ok_def offline_def exRequest_def emptyCaches_def cachesMatch_def)

end
